theory Spec2Isabelle
  imports Main "HOL-Library.Word"
begin

unbundle bit_operations_syntax

section \<open>Machine types and constants of MIC24CSM01.h\<close>

type_synonym u8 = "8 word"
type_synonym u16 = "16 word"
type_synonym u32 = "32 word"

text \<open>
  A \<open>uint8_t *\<close> parameter is the memory reachable from the pointer: cell \<open>i\<close> is
  \<open>p[i]\<close>. Reading and storing through the pointer are function application and
  function update, so an index is never out of range in the model.
\<close>

type_synonym buffer = "nat \<Rightarrow> u8"

definition BASE_MEMREG_ADDR :: u8 where
  "BASE_MEMREG_ADDR = 0x50"  \<comment> \<open>\<open>0b1010000\<close>\<close>

definition BASE_CFGREG_ADDR :: u8 where
  "BASE_CFGREG_ADDR = 0x58"  \<comment> \<open>\<open>0b1011000\<close>\<close>

definition CFGREG_WRD_ADDRH :: u8 where
  "CFGREG_WRD_ADDRH = 0x88"  \<comment> \<open>\<open>0b10001000\<close>\<close>

definition CFGREG_WRD_ADDRL :: u8 where
  "CFGREG_WRD_ADDRL = 0x00"

definition SECREG_WRD_ADDRH :: u8 where
  "SECREG_WRD_ADDRH = 0x08"  \<comment> \<open>\<open>0b00001000\<close>\<close>

definition SECREG_WRD_ADDRL :: u8 where
  "SECREG_WRD_ADDRL = 0x00"

definition SERIAL_NUMBER_BYTE_SIZE :: u8 where
  "SERIAL_NUMBER_BYTE_SIZE = 16"

definition ECS_MASK :: u16 where
  "ECS_MASK = push_bit 15 1"

definition EWPM_MASK :: u16 where
  "EWPM_MASK = push_bit 9 1"

definition LOCK_MASK :: u16 where
  "LOCK_MASK = push_bit 8 1"

definition REGISTER_LOCKED :: u8 where
  "REGISTER_LOCKED = 0x99"

definition REGISTER_UNLOCKED :: u8 where
  "REGISTER_UNLOCKED = 0x66"

definition MAX_MEMORY_ADDRESS_VALUE :: u32 where
  "MAX_MEMORY_ADDRESS_VALUE = 0x1FFFF"

definition MAX_MEMORY_PAGE_SIZE :: u32 where
  "MAX_MEMORY_PAGE_SIZE = 256"

datatype MEMORYRESULT =
    OK
  | ADDRESS_EXCEEDS_LIMIT
  | BUFFER_TOO_LARGE
  | NOT_ON_SINGLE_PAGE
  | ADDRESS_ERROR
  | DATA_ERROR
  | TIMEOUT
  | GENERIC_ERROR

record ConfigurationRegister =
  isErrorCorrectionOccured :: bool
  isSoftwareWriteProtect :: bool
  isConfigLocked :: bool
  zoneProtection :: u8

record WriteAddressPacket =
  deviceMemoryAddress :: u8
  memoryMSB :: u8
  memoryLSB :: u8

text \<open>The data members of class \<open>Mem24CSM01\<close> that its member functions read or write.\<close>

record Mem24CSM01 =
  m_dev_address_memory_access :: u8
  m_dev_address_configuration_reg :: u8
  m_dev_address_security_register :: u8
  m_configuration :: ConfigurationRegister

section \<open>The bus transport\<close>

text \<open>
  The driver talks to the global \<open>Wire\<close> object of the Arduino core, which is not part
  of the repository. It is modelled as an explicit state with the operations the driver
  calls: \<open>beginTransmission\<close>, \<open>write\<close>, \<open>endTransmission\<close>, \<open>requestFrom\<close>,
  \<open>available\<close> and \<open>read\<close>. What the outside world answers is part of the state:
  \<open>endResults w k\<close> is the completion status of the \<open>k\<close>-th \<open>endTransmission\<close>, and
  \<open>deviceData w k\<close> the bytes the addressed device offers to the \<open>k\<close>-th
  \<open>requestFrom\<close>, of which the transport delivers at most the requested quantity.
  Every completed bus transaction is appended to \<open>bus_log\<close>. The transmit buffer is
  not bounded in the model.
\<close>

datatype bus_event =
    Transmit u8 "u8 list" bool   \<comment> \<open>device address, bytes written, stop condition\<close>
  | Request u8 nat bool          \<comment> \<open>device address, quantity requested, stop condition\<close>

record wire =
  txAddress :: u8
  txBuffer :: "u8 list"
  rxBuffer :: "u8 list"
  bus_log :: "bus_event list"
  endResults :: "nat \<Rightarrow> u8"
  endCount :: nat
  deviceData :: "nat \<Rightarrow> u8 list"
  requestCount :: nat

definition Wire_beginTransmission :: "u8 \<Rightarrow> wire \<Rightarrow> wire" where
  "Wire_beginTransmission address w = w\<lparr>txAddress := address, txBuffer := []\<rparr>"

definition Wire_write :: "u8 \<Rightarrow> wire \<Rightarrow> wire" where
  "Wire_write b w = w\<lparr>txBuffer := txBuffer w @ [b]\<rparr>"

definition Wire_endTransmission :: "bool \<Rightarrow> wire \<Rightarrow> u8 \<times> wire" where
  "Wire_endTransmission sendStop w =
     (endResults w (endCount w),
      w\<lparr>bus_log := bus_log w @ [Transmit (txAddress w) (txBuffer w) sendStop],
        txBuffer := [],
        endCount := Suc (endCount w)\<rparr>)"

text \<open>The bytes the transport delivers to the next request of \<open>quantity\<close> bytes.\<close>

definition delivered :: "wire \<Rightarrow> nat \<Rightarrow> u8 list" where
  "delivered w quantity = take quantity (deviceData w (requestCount w))"

definition Wire_requestFrom :: "u8 \<Rightarrow> nat \<Rightarrow> bool \<Rightarrow> wire \<Rightarrow> nat \<times> wire" where
  "Wire_requestFrom address quantity sendStop w =
     (length (delivered w quantity),
      w\<lparr>rxBuffer := delivered w quantity,
        bus_log := bus_log w @ [Request address quantity sendStop],
        requestCount := Suc (requestCount w)\<rparr>)"

definition Wire_available :: "wire \<Rightarrow> nat" where
  "Wire_available w = length (rxBuffer w)"

text \<open>\<open>Wire.read()\<close> returns an \<open>int\<close>: the next buffered byte, or \<open>-1\<close> when none is left.\<close>

definition Wire_read :: "wire \<Rightarrow> int \<times> wire" where
  "Wire_read w =
     (case rxBuffer w of
        [] \<Rightarrow> (- 1, w)
      | b # bs \<Rightarrow> (uint b, w\<lparr>rxBuffer := bs\<rparr>))"

section \<open>The driver\<close>

subsection \<open>Construction\<close>

text \<open>
  \<open>Mem24CSM01(bool A1, bool A2)\<close>. The constructor leaves \<open>m_configuration\<close> as it
  finds it; the model takes that initial content as \<open>cfg0\<close>.
\<close>

definition Mem24CSM01_pins :: "bool \<Rightarrow> bool \<Rightarrow> ConfigurationRegister \<Rightarrow> Mem24CSM01" where
  "Mem24CSM01_pins A1 A2 cfg0 =
     (let mem = BASE_MEMREG_ADDR OR push_bit 3 (of_bool A2) OR push_bit 2 (of_bool A1);
          cfg = BASE_CFGREG_ADDR OR push_bit 3 (of_bool A2) OR push_bit 2 (of_bool A1)
      in \<lparr>m_dev_address_memory_access = mem,
          m_dev_address_configuration_reg = cfg,
          m_dev_address_security_register = cfg,
          m_configuration = cfg0\<rparr>)"

subsection \<open>Configuration register\<close>

definition getConfiguration :: "Mem24CSM01 \<Rightarrow> wire \<Rightarrow> u16 \<times> Mem24CSM01 \<times> wire" where
  "getConfiguration d w0 =
     (let w1 = Wire_beginTransmission (m_dev_address_configuration_reg d) w0;
          w2 = Wire_write CFGREG_WRD_ADDRH w1;
          w3 = Wire_write CFGREG_WRD_ADDRL w2;
          w4 = snd (Wire_endTransmission False w3);
          w5 = snd (Wire_requestFrom (m_dev_address_configuration_reg d) 2 True w4);
          (h, w6) = Wire_read w5;
          (l, w7) = Wire_read w6;
          high = (word_of_int h :: u8);
          low = (word_of_int l :: u8);
          result = (push_bit 8 (ucast high) OR ucast low :: u16)
      in (result,
          d\<lparr>m_configuration := (m_configuration d)
               \<lparr>zoneProtection := low,
                isConfigLocked := (result AND LOCK_MASK \<noteq> 0),
                isSoftwareWriteProtect := (result AND EWPM_MASK \<noteq> 0),
                isErrorCorrectionOccured := (result AND ECS_MASK \<noteq> 0)\<rparr>\<rparr>,
          w7))"

definition updateConfigRegister :: "u8 \<Rightarrow> Mem24CSM01 \<Rightarrow> wire \<Rightarrow> bool \<times> wire" where
  "updateConfigRegister confirmLock d w0 =
     (let cfgHighByte = (0 OR push_bit 1 (of_bool (isSoftwareWriteProtect (m_configuration d)))
                           OR of_bool (isConfigLocked (m_configuration d)) :: u8);
          cfgLowByte = zoneProtection (m_configuration d);
          w1 = Wire_beginTransmission (m_dev_address_configuration_reg d) w0;
          w2 = Wire_write CFGREG_WRD_ADDRH w1;
          w3 = Wire_write CFGREG_WRD_ADDRL w2;
          w4 = Wire_write cfgHighByte w3;
          w5 = Wire_write cfgLowByte w4;
          w6 = Wire_write confirmLock w5;
          (status, w7) = Wire_endTransmission True w6
      in if status \<noteq> 0 then (False, w7) else (True, w7))"

text \<open>The declaration gives \<open>confirmLock\<close> the default value \<open>0x66\<close>.\<close>

definition updateConfigRegister_default :: "Mem24CSM01 \<Rightarrow> wire \<Rightarrow> bool \<times> wire" where
  "updateConfigRegister_default d w = updateConfigRegister 0x66 d w"

definition enableSoftwareWriteProtect :: "Mem24CSM01 \<Rightarrow> wire \<Rightarrow> bool \<times> Mem24CSM01 \<times> wire" where
  "enableSoftwareWriteProtect d w =
     (let d' = d\<lparr>m_configuration := (m_configuration d)\<lparr>isSoftwareWriteProtect := True\<rparr>\<rparr>;
          (r, w') = updateConfigRegister_default d' w
      in (r, d', w'))"

definition disableSoftwareWriteProtect :: "Mem24CSM01 \<Rightarrow> wire \<Rightarrow> bool \<times> Mem24CSM01 \<times> wire" where
  "disableSoftwareWriteProtect d w =
     (let d' = d\<lparr>m_configuration := (m_configuration d)\<lparr>isSoftwareWriteProtect := False\<rparr>\<rparr>;
          (r, w') = updateConfigRegister_default d' w
      in (r, d', w'))"

text \<open>
  The macros of \<open>Arduino.h\<close>: \<open>bitSet(value, bit)\<close> is \<open>((value) |= (1UL << (bit)))\<close>
  and \<open>bitClear(value, bit)\<close> is \<open>((value) &= ~(1UL << (bit)))\<close>, computed in
  32 bits and stored back into the byte.
\<close>

definition bitSet :: "u8 \<Rightarrow> u8 \<Rightarrow> u8" where
  "bitSet v b = ucast ((ucast v :: u32) OR push_bit (unat b) 1)"

definition bitClear :: "u8 \<Rightarrow> u8 \<Rightarrow> u8" where
  "bitClear v b = ucast ((ucast v :: u32) AND NOT (push_bit (unat b) 1))"

definition setWriteProtectionZone :: "u8 \<Rightarrow> Mem24CSM01 \<Rightarrow> wire \<Rightarrow> bool \<times> Mem24CSM01 \<times> wire" where
  "setWriteProtectionZone zone d w =
     (if zone \<ge> 0 \<and> zone \<le> 7 then
        (let temp_zoneProtection = bitSet (zoneProtection (m_configuration d)) zone;
             d' = d\<lparr>m_configuration := (m_configuration d)\<lparr>zoneProtection := temp_zoneProtection\<rparr>\<rparr>;
             (r, w') = updateConfigRegister_default d' w
         in if r then (True, d', w') else (False, d', w'))
      else (False, d, w))"

definition writeProtection :: "u8 \<Rightarrow> Mem24CSM01 \<Rightarrow> wire \<Rightarrow> bool \<times> Mem24CSM01 \<times> wire" where
  "writeProtection zones d w =
     (let d' = d\<lparr>m_configuration := (m_configuration d)\<lparr>zoneProtection := zones\<rparr>\<rparr>;
          (r, w') = updateConfigRegister_default d' w
      in (r, d', w'))"

definition removeWriteProtectionZone :: "u8 \<Rightarrow> Mem24CSM01 \<Rightarrow> wire \<Rightarrow> bool \<times> Mem24CSM01 \<times> wire" where
  "removeWriteProtectionZone zone d w =
     (if zone \<ge> 0 \<and> zone \<le> 7 then
        (let temp_zoneProtection = bitClear (zoneProtection (m_configuration d)) zone;
             d' = d\<lparr>m_configuration := (m_configuration d)\<lparr>zoneProtection := temp_zoneProtection\<rparr>\<rparr>;
             (r, w') = updateConfigRegister_default d' w
         in if r then (True, d', w') else (False, d', w'))
      else (False, d, w))"

subsection \<open>Serial number\<close>

text \<open>The \<open>for\<close> loop of \<open>getSerialNumber\<close>, from index \<open>nBytes\<close> on.\<close>

function getSerialNumber_loop :: "nat \<Rightarrow> nat \<Rightarrow> buffer \<Rightarrow> wire \<Rightarrow> buffer \<times> wire" where
  "getSerialNumber_loop nBytes arraySize data w =
     (if nBytes < arraySize then
        (case Wire_read w of
           (v, w') \<Rightarrow> getSerialNumber_loop (Suc nBytes) arraySize (data(nBytes := word_of_int v)) w')
      else (data, w))"
  by pat_completeness auto
termination
  by (relation "measure (\<lambda>(nBytes, arraySize, data, w). arraySize - nBytes)") auto

definition getSerialNumber :: "buffer \<Rightarrow> u8 \<Rightarrow> Mem24CSM01 \<Rightarrow> wire \<Rightarrow> bool \<times> buffer \<times> wire" where
  "getSerialNumber data arraySize d w0 =
     (if arraySize \<noteq> SERIAL_NUMBER_BYTE_SIZE then (False, data, w0)
      else
        (let w1 = Wire_beginTransmission (m_dev_address_security_register d) w0;
             w2 = Wire_write SECREG_WRD_ADDRH w1;
             w3 = Wire_write SECREG_WRD_ADDRL w2;
             w4 = snd (Wire_endTransmission False w3);
             w5 = snd (Wire_requestFrom (m_dev_address_security_register d) 16 True w4);
             (data', w6) = getSerialNumber_loop 0 (unat arraySize) data w5
         in (True, data', w6)))"

subsection \<open>Memory access\<close>

definition configureAddressPacket :: "Mem24CSM01 \<Rightarrow> u32 \<Rightarrow> WriteAddressPacket" where
  "configureAddressPacket d address =
     (let highAddrBit = (ucast (drop_bit 17 address AND 1) :: u8)
      in \<lparr>deviceMemoryAddress = m_dev_address_memory_access d OR push_bit 1 highAddrBit,
          memoryMSB = ucast (drop_bit 8 address AND 0xFF),
          memoryLSB = ucast (address AND 0xFF)\<rparr>)"

definition processTransmissionResult :: "int \<Rightarrow> MEMORYRESULT" where
  "processTransmissionResult transmissionResult =
     (if transmissionResult = 0 then OK
      else if transmissionResult = 2 then ADDRESS_ERROR
      else if transmissionResult = 3 then DATA_ERROR
      else if transmissionResult = 5 then TIMEOUT
      else GENERIC_ERROR)"

definition addressMemoryPointer :: "Mem24CSM01 \<Rightarrow> u32 \<Rightarrow> wire \<Rightarrow> u8 \<times> wire" where
  "addressMemoryPointer d address w0 =
     (let writeAddressPacket = configureAddressPacket d address;
          w1 = Wire_beginTransmission (deviceMemoryAddress writeAddressPacket) w0;
          w2 = Wire_write (memoryMSB writeAddressPacket) w1;
          w3 = Wire_write (memoryLSB writeAddressPacket) w2
      in (deviceMemoryAddress writeAddressPacket, w3))"

text \<open>The \<open>for\<close> loop of \<open>write\<close>, from index \<open>i\<close> on.\<close>

function write_loop :: "nat \<Rightarrow> nat \<Rightarrow> buffer \<Rightarrow> wire \<Rightarrow> wire" where
  "write_loop i arraySize dataArray w =
     (if i < arraySize then write_loop (Suc i) arraySize dataArray (Wire_write (dataArray i) w)
      else w)"
  by pat_completeness auto
termination
  by (relation "measure (\<lambda>(i, arraySize, dataArray, w). arraySize - i)") auto

text \<open>
  \<open>write(uint32_t address, uint8_t *dataArray, size_t arraySize)\<close>. The sum
  \<open>address + arraySize - 1\<close> is computed in the 32-bit unsigned type of \<open>address\<close>, to
  which \<open>arraySize\<close> is converted; the model takes \<open>arraySize\<close> after that conversion.
\<close>

definition write_dataArray :: "u32 \<Rightarrow> buffer \<Rightarrow> u32 \<Rightarrow> Mem24CSM01 \<Rightarrow> wire \<Rightarrow> MEMORYRESULT \<times> wire" where
  "write_dataArray address dataArray arraySize d w0 =
     (if address > MAX_MEMORY_ADDRESS_VALUE then (ADDRESS_EXCEEDS_LIMIT, w0)
      else if arraySize > MAX_MEMORY_PAGE_SIZE then (BUFFER_TOO_LARGE, w0)
      else if (address + arraySize - 1) > 0xFF then (NOT_ON_SINGLE_PAGE, w0)
      else
        (let writeAddressPacket = configureAddressPacket d address;
             w1 = Wire_beginTransmission (deviceMemoryAddress writeAddressPacket) w0;
             w2 = Wire_write (memoryMSB writeAddressPacket) w1;
             w3 = Wire_write (memoryLSB writeAddressPacket) w2;
             w4 = write_loop 0 (unat arraySize) dataArray w3;
             (transmissionResult, w5) = Wire_endTransmission True w4
         in (processTransmissionResult (uint transmissionResult), w5)))"

text \<open>\<open>write(uint32_t address, uint8_t singleByte)\<close>.\<close>

definition write_singleByte :: "u32 \<Rightarrow> u8 \<Rightarrow> Mem24CSM01 \<Rightarrow> wire \<Rightarrow> MEMORYRESULT \<times> wire" where
  "write_singleByte address singleByte d w = write_dataArray address (\<lambda>_. singleByte) 1 d w"

text \<open>\<open>read(uint8_t *data)\<close>: the read at the current address pointer.\<close>

definition read_current :: "buffer \<Rightarrow> Mem24CSM01 \<Rightarrow> wire \<Rightarrow> MEMORYRESULT \<times> buffer \<times> wire" where
  "read_current data d w0 =
     (let w1 = Wire_beginTransmission (m_dev_address_memory_access d) w0;
          w2 = snd (Wire_endTransmission True w1);
          (n, w3) = Wire_requestFrom (m_dev_address_memory_access d) 1 True w2
      in if n \<noteq> 1 then (GENERIC_ERROR, data, w3)
         else (case Wire_read w3 of (v, w4) \<Rightarrow> (OK, data(0 := word_of_int v), w4)))"

text \<open>The \<open>while (Wire.available())\<close> loop of the buffer read, from index \<open>i\<close> on.\<close>

function read_loop :: "nat \<Rightarrow> buffer \<Rightarrow> wire \<Rightarrow> buffer \<times> wire" where
  "read_loop i buffer w =
     (if Wire_available w \<noteq> 0 then
        (case Wire_read w of (v, w') \<Rightarrow> read_loop (Suc i) (buffer(i := word_of_int v)) w')
      else (buffer, w))"
  by pat_completeness auto
termination
  by (relation "measure (\<lambda>(i, buffer, w). length (rxBuffer w))")
     (auto simp: Wire_available_def Wire_read_def split: list.splits)

text \<open>\<open>read(uint32_t address, uint8_t *buffer, size_t bufferSize)\<close>.\<close>

definition read_buffer :: "u32 \<Rightarrow> buffer \<Rightarrow> u32 \<Rightarrow> Mem24CSM01 \<Rightarrow> wire \<Rightarrow> MEMORYRESULT \<times> buffer \<times> wire" where
  "read_buffer address buffer bufferSize d w0 =
     (if address > MAX_MEMORY_ADDRESS_VALUE then (ADDRESS_EXCEEDS_LIMIT, buffer, w0)
      else if bufferSize > 256 then (BUFFER_TOO_LARGE, buffer, w0)
      else
        (let (deviceAddress, w1) = addressMemoryPointer d address w0;
             w2 = snd (Wire_endTransmission True w1);
             w3 = snd (Wire_requestFrom deviceAddress (unat bufferSize) True w2);
             (buffer', w4) = read_loop 0 buffer w3
         in (OK, buffer', w4)))"

text \<open>\<open>read(uint32_t address, uint8_t *data)\<close>.\<close>

definition read_single :: "u32 \<Rightarrow> buffer \<Rightarrow> Mem24CSM01 \<Rightarrow> wire \<Rightarrow> MEMORYRESULT \<times> buffer \<times> wire" where
  "read_single address data d w = read_buffer address data 1 d w"

declare getSerialNumber_loop.simps [simp del]
declare write_loop.simps [simp del]
declare read_loop.simps [simp del]

subsection \<open>A driver instance and a transport to run it on\<close>

text \<open>
  The sketch of the repository declares \<open>Mem24CSM01 memory(false, false)\<close> at file
  scope, so its configuration snapshot starts zeroed.
\<close>

definition memory :: Mem24CSM01 where
  "memory = Mem24CSM01_pins False False
     \<lparr>isErrorCorrectionOccured = False, isSoftwareWriteProtect = False,
      isConfigLocked = False, zoneProtection = 0\<rparr>"

text \<open>
  An idle transport with an empty log that completes every transmission with
  \<open>status\<close> and whose device offers \<open>bytes\<close> to every request.
\<close>

definition idle_wire :: "u8 \<Rightarrow> u8 list \<Rightarrow> wire" where
  "idle_wire status bytes =
     \<lparr>txAddress = 0, txBuffer = [], rxBuffer = [], bus_log = [],
      endResults = (\<lambda>_. status), endCount = 0,
      deviceData = (\<lambda>_. bytes), requestCount = 0\<rparr>"

section \<open>Auxiliary facts\<close>

lemma processTransmissionResult_range:
  "processTransmissionResult r \<in> {OK, ADDRESS_ERROR, DATA_ERROR, TIMEOUT, GENERIC_ERROR}"
  by (simp add: processTransmissionResult_def)

lemma processTransmissionResult_not_page [simp]:
  "processTransmissionResult r \<noteq> NOT_ON_SINGLE_PAGE"
  by (simp add: processTransmissionResult_def)

text \<open>
  The page check of \<open>write\<close> on natural numbers: for an address within the memory and
  a size from 1 to 256 the 32-bit sum does not wrap, and the check fails exactly when
  the last byte written lies beyond address \<open>0xFF\<close>.
\<close>

lemma page_check_nat:
  fixes address arraySize :: u32
  assumes "address \<le> 0x1FFFF" and "1 \<le> arraySize" and "arraySize \<le> 256"
  shows "(address + arraySize - 1 > 0xFF) \<longleftrightarrow> unat address + unat arraySize > 256"
proof -
  have a: "unat address \<le> 131071" using assms(1) by (simp add: word_le_nat_alt)
  have b: "1 \<le> unat arraySize" using assms(2) by (simp add: word_le_nat_alt)
  have c: "unat arraySize \<le> 256" using assms(3) by (simp add: word_le_nat_alt)
  have s: "unat (address + arraySize) = unat address + unat arraySize"
    using a c by (simp add: unat_add_lem [THEN iffD1])
  have "1 \<le> address + arraySize"
    using b s by (simp add: word_le_nat_alt)
  then have "unat (address + arraySize - 1) = unat address + unat arraySize - 1"
    using s by (simp add: unat_sub)
  then show ?thesis using b by (simp add: word_less_nat_alt) arith
qed

lemma write_dataArray_page_check:
  fixes address arraySize :: u32
  assumes "address \<le> 0x1FFFF" and "1 \<le> arraySize" and "arraySize \<le> 256"
  shows "fst (write_dataArray address dataArray arraySize d w) = NOT_ON_SINGLE_PAGE
           \<longleftrightarrow> unat address + unat arraySize > 256"
proof -
  have g1: "\<not> address > MAX_MEMORY_ADDRESS_VALUE"
    using assms(1) by (simp add: MAX_MEMORY_ADDRESS_VALUE_def not_less)
  have g2: "\<not> arraySize > MAX_MEMORY_PAGE_SIZE"
    using assms(3) by (simp add: MAX_MEMORY_PAGE_SIZE_def not_less)
  have "fst (write_dataArray address dataArray arraySize d w) = NOT_ON_SINGLE_PAGE
          \<longleftrightarrow> address + arraySize - 1 > 0xFF"
  proof (cases "address + arraySize - 1 > 0xFF")
    case True
    show ?thesis
      unfolding write_dataArray_def if_not_P [OF g1] if_not_P [OF g2] if_P [OF True]
      using True by (simp only: fst_conv simp_thms)
  next
    case False
    show ?thesis
      unfolding write_dataArray_def if_not_P [OF g1] if_not_P [OF g2] if_not_P [OF False]
      using False by (simp only: Let_def split_beta fst_conv processTransmissionResult_not_page simp_thms)
  qed
  then show ?thesis
    unfolding page_check_nat [OF assms] .
qed

text \<open>Transmitting does not touch what the device will answer to the next request.\<close>

lemma delivered_after_transmit [simp]:
  "delivered (snd (Wire_endTransmission s w)) n = delivered w n"
  "delivered (Wire_write b w) n = delivered w n"
  "delivered (Wire_beginTransmission a w) n = delivered w n"
  by (simp_all add: delivered_def Wire_endTransmission_def Wire_write_def
      Wire_beginTransmission_def)

lemma mask_bit:
  "(x AND LOCK_MASK \<noteq> 0) = bit x 8"
  "(x AND EWPM_MASK \<noteq> 0) = bit x 9"
  "(x AND ECS_MASK \<noteq> 0) = bit x 15"
  by (simp_all add: LOCK_MASK_def EWPM_MASK_def ECS_MASK_def bit_iff_and_push_bit_not_eq_0)

text \<open>The value of two bytes put together, high byte first.\<close>

lemma uint_two_bytes:
  "uint (push_bit 8 (ucast (high :: u8)) OR ucast (low :: u8) :: u16) = 256 * uint high + uint low"
proof -
  have h: "uint high < 256" using uint_lt2p [of high] by simp
  have l: "uint low < 256" using uint_lt2p [of low] by simp
  have l0: "0 \<le> uint low" and h0: "0 \<le> uint high" by simp_all
  have "take_bit 8 (uint low) = uint low"
    using l l0 by (simp add: take_bit_int_eq_self)
  then have c: "concat_bit 8 (uint low) (uint high) = uint low + 256 * uint high"
    by (simp add: concat_bit_eq push_bit_eq_mult)
  have "(push_bit 8 (ucast high) OR ucast low :: u16) = word_cat high low"
    by (simp only: word_cat_eq_push_bit_or) simp
  also have "uint (word_cat high low :: u16) =
      uint (word_of_int (concat_bit 8 (uint low) (uint high)) :: u16)"
    by (simp only: word_cat_eq') simp
  also have "\<dots> = (uint low + 256 * uint high) mod 2 ^ 16"
    by (simp only: uint_word_of_int c) simp
  also have "\<dots> = uint low + 256 * uint high"
    using h l l0 h0 by (intro mod_pos_pos_trivial) auto
  finally show ?thesis by simp
qed

lemma getSerialNumber_loop_data:
  "fst (getSerialNumber_loop nBytes arraySize data w) i =
     (if nBytes \<le> i \<and> i < arraySize then
        (if i - nBytes < length (rxBuffer w) then rxBuffer w ! (i - nBytes) else 0xFF)
      else data i)"
proof (induction nBytes arraySize data w rule: getSerialNumber_loop.induct)
  case (1 nBytes arraySize data w)
  show ?case
  proof (cases "nBytes < arraySize")
    case False
    then show ?thesis by (subst getSerialNumber_loop.simps) auto
  next
    case True
    obtain v w' where r: "Wire_read w = (v, w')" by (cases "Wire_read w")
    have step: "getSerialNumber_loop nBytes arraySize data w =
        getSerialNumber_loop (Suc nBytes) arraySize (data(nBytes := word_of_int v)) w'"
      by (subst getSerialNumber_loop.simps) (simp add: True r)
    have ih: "fst (getSerialNumber_loop (Suc nBytes) arraySize (data(nBytes := word_of_int v)) w') i =
       (if Suc nBytes \<le> i \<and> i < arraySize then
          (if i - Suc nBytes < length (rxBuffer w') then rxBuffer w' ! (i - Suc nBytes) else 0xFF)
        else (data(nBytes := word_of_int v)) i)"
      by (rule "1.IH" [OF True r [symmetric]])
    show ?thesis
    proof (cases "rxBuffer w")
      case Nil
      then have "v = - 1" and "rxBuffer w' = []"
        using r by (auto simp: Wire_read_def)
      then show ?thesis
        unfolding step ih using True Nil by auto
    next
      case (Cons b bs)
      then have "v = uint b" and "rxBuffer w' = bs"
        using r by (auto simp: Wire_read_def)
      then show ?thesis
        unfolding step ih using True Cons by (auto simp: Suc_diff_le nth_Cons')
    qed
  qed
qed

lemma getSerialNumber_loop_log:
  "bus_log (snd (getSerialNumber_loop nBytes arraySize data w)) = bus_log w"
proof (induction nBytes arraySize data w rule: getSerialNumber_loop.induct)
  case (1 nBytes arraySize data w)
  show ?case
  proof (cases "nBytes < arraySize")
    case False
    then show ?thesis by (subst getSerialNumber_loop.simps) simp
  next
    case True
    obtain v w' where r: "Wire_read w = (v, w')" by (cases "Wire_read w")
    have step: "getSerialNumber_loop nBytes arraySize data w =
        getSerialNumber_loop (Suc nBytes) arraySize (data(nBytes := word_of_int v)) w'"
      by (subst getSerialNumber_loop.simps) (simp add: True r)
    have "bus_log w' = bus_log w"
      using r by (auto simp: Wire_read_def split: list.splits)
    then show ?thesis
      unfolding step "1.IH" [OF True r [symmetric]] .
  qed
qed

lemma zone_unat: "(zone :: u8) \<le> 7 \<Longrightarrow> unat zone < 8"
  by (simp add: word_le_nat_alt)

lemma bit_bitSet:
  "zone \<le> 7 \<Longrightarrow> bit (bitSet v zone) n \<longleftrightarrow> n = unat zone \<or> bit v n"
  using zone_unat [of zone]
  by (auto simp: bitSet_def bit_simps dest: bit_imp_le_length)

lemma bit_bitClear:
  "zone \<le> 7 \<Longrightarrow> bit (bitClear v zone) n \<longleftrightarrow> n \<noteq> unat zone \<and> bit v n"
  using zone_unat [of zone]
  by (auto simp: bitClear_def bit_simps dest: bit_imp_le_length)


lemma updateConfigRegister_result:
  "fst (updateConfigRegister confirmLock d w) = (endResults w (endCount w) = 0)"
  by (simp add: updateConfigRegister_def Wire_beginTransmission_def Wire_write_def
      Wire_endTransmission_def Let_def)

lemma setWriteProtectionZone_in_range:
  assumes "zone \<le> 7"
  shows "setWriteProtectionZone zone d w =
     (fst (updateConfigRegister 0x66
        (d\<lparr>m_configuration := (m_configuration d)
              \<lparr>zoneProtection := bitSet (zoneProtection (m_configuration d)) zone\<rparr>\<rparr>) w),
      d\<lparr>m_configuration := (m_configuration d)
              \<lparr>zoneProtection := bitSet (zoneProtection (m_configuration d)) zone\<rparr>\<rparr>,
      snd (updateConfigRegister 0x66
        (d\<lparr>m_configuration := (m_configuration d)
              \<lparr>zoneProtection := bitSet (zoneProtection (m_configuration d)) zone\<rparr>\<rparr>) w))"
  using assms
  by (simp add: setWriteProtectionZone_def updateConfigRegister_default_def Let_def split_beta)

lemma removeWriteProtectionZone_in_range:
  assumes "zone \<le> 7"
  shows "removeWriteProtectionZone zone d w =
     (fst (updateConfigRegister 0x66
        (d\<lparr>m_configuration := (m_configuration d)
              \<lparr>zoneProtection := bitClear (zoneProtection (m_configuration d)) zone\<rparr>\<rparr>) w),
      d\<lparr>m_configuration := (m_configuration d)
              \<lparr>zoneProtection := bitClear (zoneProtection (m_configuration d)) zone\<rparr>\<rparr>,
      snd (updateConfigRegister 0x66
        (d\<lparr>m_configuration := (m_configuration d)
              \<lparr>zoneProtection := bitClear (zoneProtection (m_configuration d)) zone\<rparr>\<rparr>) w))"
  using assms
  by (simp add: removeWriteProtectionZone_def updateConfigRegister_default_def Let_def split_beta)

lemma ucast_and_FF: "(ucast ((x :: u32) AND 0xFF) :: u8) = ucast x"
proof -
  have m: "(0xFF :: u32) = mask 8" by (simp add: mask_eq_exp_minus_1)
  show ?thesis
    unfolding m by (rule bit_word_eqI) (auto simp: bit_simps)
qed

lemma drop_bit_17_small:
  fixes address :: u32
  assumes "address \<le> 0x1FFFF"
  shows "drop_bit 17 address = 0"
proof -
  have "unat address \<le> 131071" using assms by (simp add: word_le_nat_alt)
  then have "unat (drop_bit 17 address) = 0"
    by (simp only: unat_drop_bit_eq) (simp add: drop_bit_eq_div)
  then show ?thesis by (simp only: unat_eq_0)
qed

lemma configureAddressPacket_small:
  fixes address :: u32
  assumes "address \<le> 0x1FFFF"
  shows "configureAddressPacket d address =
     \<lparr>deviceMemoryAddress = m_dev_address_memory_access d,
      memoryMSB = ucast (drop_bit 8 address),
      memoryLSB = ucast address\<rparr>"
  by (simp add: configureAddressPacket_def drop_bit_17_small [OF assms] ucast_and_FF Let_def)

lemma write_loop_0 [simp]: "write_loop i 0 dataArray w = w"
  by (subst write_loop.simps) simp

lemma zero_size_check:
  fixes address :: u32
  assumes "1 \<le> address" and "address \<le> 0x100"
  shows "\<not> (address + 0 - 1 > 0xFF)"
proof -
  have a: "1 \<le> unat address" using assms(1) by (simp add: word_le_nat_alt)
  have b: "unat address \<le> 256" using assms(2) by (simp add: word_le_nat_alt)
  have "unat (address - 1) = unat address - 1"
    using assms(1) by (simp add: unat_sub)
  then have "unat (address - 1) \<le> 255" using b by simp
  then have "address - 1 \<le> 0xFF" by (simp add: word_le_nat_alt)
  then show ?thesis by (simp only: add_0_right not_less)
qed

section \<open>The page check of write\<close>

text \<open>
  C1. The claim: for an address up to \<open>0x1FFFF\<close> and a size from 1 to 256, \<open>write\<close>
  returns \<open>NOT_ON_SINGLE_PAGE\<close> exactly when \<open>(address mod 256) + arraySize > 256\<close>.
  The code compares the whole of \<open>address + arraySize - 1\<close> with \<open>0xFF\<close>, not its low
  byte: writing the single byte at address \<open>0x100\<close>, the first byte of the second page,
  is refused with \<open>NOT_ON_SINGLE_PAGE\<close> and the bus is left untouched, although
  \<open>(0x100 mod 256) + 1\<close> is 1.
\<close>

theorem write_dataArray_second_page_refused:
  "write_dataArray 0x100 dataArray 1 d w = (NOT_ON_SINGLE_PAGE, w)
   \<and> \<not> (unat (0x100 :: u32) mod 256 + unat (1 :: u32) > 256)"
  by (simp add: write_dataArray_def MAX_MEMORY_ADDRESS_VALUE_def MAX_MEMORY_PAGE_SIZE_def)

section \<open>Bus addresses from the address pins\<close>

text \<open>
  C2. The claim: the two-pin constructor yields the memory-access address \<open>0b1010000\<close>
  and the configuration address \<open>0b1011000\<close> for \<open>A1 = A2 = false\<close>, and \<open>0b1010110\<close>
  and \<open>0b1011110\<close> for \<open>A1 = A2 = true\<close>. The first half holds. With both pins set the
  code yields \<open>0b1011100\<close> (\<open>0x5C\<close>) for both addresses: the pins are shifted to bits 3
  and 2 of the 7-bit base address, so \<open>A2\<close> lands on the bit that tells the memory
  from the configuration register.
\<close>

theorem Mem24CSM01_pins_addresses:
  "m_dev_address_memory_access (Mem24CSM01_pins False False cfg0) = 0x50
   \<and> m_dev_address_configuration_reg (Mem24CSM01_pins False False cfg0) = 0x58
   \<and> m_dev_address_memory_access (Mem24CSM01_pins True True cfg0) = 0x5C
   \<and> m_dev_address_configuration_reg (Mem24CSM01_pins True True cfg0) = 0x5C
   \<and> (0x5C :: u8) \<noteq> 0x56 \<and> (0x5C :: u8) \<noteq> 0x5E"
  by (simp add: Mem24CSM01_pins_def BASE_MEMREG_ADDR_def BASE_CFGREG_ADDR_def)

section \<open>Writing the configuration register\<close>

text \<open>
  C3. \<open>updateConfigRegister(confirmLock)\<close> issues one transaction to the configuration
  address, closed with a stop condition, that carries the two word-address bytes
  \<open>0x88\<close>, \<open>0x00\<close>, then the high byte with the write-protect-mode flag of the snapshot
  at bit 1 and its lock flag at bit 0, then the snapshot's zone-protection byte, then
  \<open>confirmLock\<close>. It returns true exactly when the completion status of that
  transaction is 0.
\<close>

theorem updateConfigRegister_transaction:
  "updateConfigRegister confirmLock d w =
     (endResults w (endCount w) = 0,
      w\<lparr>txAddress := m_dev_address_configuration_reg d,
        txBuffer := [],
        bus_log := bus_log w @
          [Transmit (m_dev_address_configuration_reg d)
             [0x88, 0x00,
              (if isSoftwareWriteProtect (m_configuration d) then 2 else 0)
                + (if isConfigLocked (m_configuration d) then 1 else 0),
              zoneProtection (m_configuration d),
              confirmLock]
             True],
        endCount := Suc (endCount w)\<rparr>)"
  by (simp add: updateConfigRegister_def Wire_beginTransmission_def Wire_write_def
      Wire_endTransmission_def CFGREG_WRD_ADDRH_def CFGREG_WRD_ADDRL_def Let_def)

section \<open>The status mapping\<close>

text \<open>
  C5. \<open>processTransmissionResult\<close> maps the completion code 0 to \<open>OK\<close>, 2 to
  \<open>ADDRESS_ERROR\<close>, 3 to \<open>DATA_ERROR\<close>, 5 to \<open>TIMEOUT\<close> and every other integer to
  \<open>GENERIC_ERROR\<close>; it yields no other result.
\<close>

theorem processTransmissionResult_mapping:
  "processTransmissionResult 0 = OK
   \<and> processTransmissionResult 2 = ADDRESS_ERROR
   \<and> processTransmissionResult 3 = DATA_ERROR
   \<and> processTransmissionResult 5 = TIMEOUT
   \<and> (\<forall>r. r \<notin> {0, 2, 3, 5} \<longrightarrow> processTransmissionResult r = GENERIC_ERROR)
   \<and> (\<forall>r. processTransmissionResult r
          \<in> {OK, ADDRESS_ERROR, DATA_ERROR, TIMEOUT, GENERIC_ERROR})"
  by (simp add: processTransmissionResult_def)

theorem processTransmissionResult_mapping_witness:
  "(4 :: int) \<notin> {0, 2, 3, 5} \<and> processTransmissionResult 4 = GENERIC_ERROR
   \<and> processTransmissionResult (- 1) = GENERIC_ERROR"
  using processTransmissionResult_mapping by simp

section \<open>Reading the configuration register\<close>

text \<open>
  C4. When the bus delivers the two bytes \<open>high\<close>, \<open>low\<close>, \<open>getConfiguration\<close> returns the
  16-bit value \<open>(high << 8) | low\<close>, that is \<open>256 * high + low\<close>, and replaces the whole
  configuration snapshot, whatever it held: \<open>zoneProtection\<close> is \<open>low\<close>,
  \<open>isConfigLocked\<close> is bit 8 of the result, \<open>isSoftwareWriteProtect\<close> bit 9 and
  \<open>isErrorCorrectionOccured\<close> bit 15.
\<close>

theorem getConfiguration_decodes:
  assumes "delivered w 2 = [high, low]"
  shows "fst (getConfiguration d w) = push_bit 8 (ucast high) OR ucast low
    \<and> uint (fst (getConfiguration d w)) = 256 * uint high + uint low
    \<and> m_configuration (fst (snd (getConfiguration d w))) =
        \<lparr>isErrorCorrectionOccured = bit (fst (getConfiguration d w)) 15,
         isSoftwareWriteProtect = bit (fst (getConfiguration d w)) 9,
         isConfigLocked = bit (fst (getConfiguration d w)) 8,
         zoneProtection = low\<rparr>"
proof -
  have r: "fst (getConfiguration d w) = push_bit 8 (ucast high) OR ucast low"
    using assms
    by (simp add: getConfiguration_def Wire_requestFrom_def Wire_read_def Let_def
        split: prod.splits)
  have c: "m_configuration (fst (snd (getConfiguration d w))) =
        \<lparr>isErrorCorrectionOccured = bit (fst (getConfiguration d w)) 15,
         isSoftwareWriteProtect = bit (fst (getConfiguration d w)) 9,
         isConfigLocked = bit (fst (getConfiguration d w)) 8,
         zoneProtection = low\<rparr>"
    using assms
    by (simp add: getConfiguration_def Wire_requestFrom_def Wire_read_def Let_def mask_bit
        split: prod.splits)
  have "uint (fst (getConfiguration d w)) = 256 * uint high + uint low"
    unfolding r by (rule uint_two_bytes)
  with r c show ?thesis by (intro conjI)
qed

theorem getConfiguration_decodes_witness:
  "delivered (idle_wire 0 [0x83, 0x05]) 2 = [0x83, 0x05]
   \<and> fst (getConfiguration memory (idle_wire 0 [0x83, 0x05])) = 0x8305
   \<and> m_configuration (fst (snd (getConfiguration memory (idle_wire 0 [0x83, 0x05])))) =
        \<lparr>isErrorCorrectionOccured = True, isSoftwareWriteProtect = True,
         isConfigLocked = True, zoneProtection = 0x05\<rparr>"
proof -
  have h: "delivered (idle_wire 0 [0x83, 0x05]) 2 = [0x83, 0x05]"
    by (simp add: delivered_def idle_wire_def)
  show ?thesis
    using h getConfiguration_decodes [OF h, of memory] by simp
qed

section \<open>Short reads\<close>

text \<open>
  C6. The two read paths treat a short read differently. The read at the current
  address, \<open>read(data)\<close>, returns \<open>OK\<close> when the transport delivers exactly one byte and
  \<open>GENERIC_ERROR\<close> otherwise. The buffer read \<open>read(address, buffer, bufferSize)\<close>
  returns \<open>OK\<close> for every address up to \<open>0x1FFFF\<close> and every size up to 256, whatever
  the transport delivers.
\<close>

theorem read_underrun_asymmetry:
  "fst (read_current data d w) = (if length (delivered w 1) = 1 then OK else GENERIC_ERROR)
   \<and> (address \<le> 0x1FFFF \<and> bufferSize \<le> 256 \<longrightarrow>
        fst (read_buffer address buffer bufferSize d w) = OK)"
proof (intro conjI impI)
  show "fst (read_current data d w) = (if length (delivered w 1) = 1 then OK else GENERIC_ERROR)"
    by (simp add: read_current_def Wire_requestFrom_def Let_def split_beta)
next
  assume "address \<le> 0x1FFFF \<and> bufferSize \<le> 256"
  then have "\<not> address > MAX_MEMORY_ADDRESS_VALUE" and "\<not> bufferSize > 256"
    by (simp_all add: MAX_MEMORY_ADDRESS_VALUE_def not_less)
  then show "fst (read_buffer address buffer bufferSize d w) = OK"
    by (simp add: read_buffer_def Let_def split_beta)
qed

theorem read_underrun_asymmetry_witness:
  "fst (read_current (\<lambda>_. 0) memory (idle_wire 0 [])) = GENERIC_ERROR
   \<and> (0 :: u32) \<le> 0x1FFFF \<and> (5 :: u32) \<le> 256
   \<and> length (delivered (idle_wire 0 []) 5) = 0
   \<and> fst (read_buffer 0 (\<lambda>_. 0) 5 memory (idle_wire 0 [])) = OK"
  using read_underrun_asymmetry [of "\<lambda>_. 0" memory "idle_wire 0 []" 0 5 "\<lambda>_. 0"]
  by (simp add: delivered_def idle_wire_def)

section \<open>The serial number\<close>

text \<open>
  C7. \<open>getSerialNumber(data, arraySize)\<close> returns false, with the buffer and the bus
  untouched, whenever \<open>arraySize\<close> is not 16. For \<open>arraySize = 16\<close> it returns true
  after writing the word address \<open>0x08\<close>, \<open>0x00\<close> to the security register without a
  stop condition and requesting 16 bytes; the first 16 cells of \<open>data\<close> receive the
  delivered bytes in order, a byte the bus did not deliver reads as \<open>0xFF\<close>, and the
  cells from 16 on are untouched. The result is true however many bytes were delivered.
\<close>

theorem getSerialNumber_size_check:
  "(arraySize \<noteq> 16 \<longrightarrow> getSerialNumber data arraySize d w = (False, data, w))
   \<and> (arraySize = 16 \<longrightarrow>
        fst (getSerialNumber data arraySize d w) = True
        \<and> bus_log (snd (snd (getSerialNumber data arraySize d w))) =
            bus_log w @ [Transmit (m_dev_address_security_register d) [0x08, 0x00] False,
                         Request (m_dev_address_security_register d) 16 True]
        \<and> (\<forall>i. fst (snd (getSerialNumber data arraySize d w)) i =
              (if i < 16 then
                 (if i < length (delivered w 16) then delivered w 16 ! i else 0xFF)
               else data i)))"
proof (intro conjI impI)
  assume "arraySize \<noteq> 16"
  then show "getSerialNumber data arraySize d w = (False, data, w)"
    by (simp add: getSerialNumber_def SERIAL_NUMBER_BYTE_SIZE_def)
next
  assume a: "arraySize = 16"
  show "fst (getSerialNumber data arraySize d w) = True"
    by (simp add: a getSerialNumber_def SERIAL_NUMBER_BYTE_SIZE_def Let_def split: prod.splits)
next
  assume a: "arraySize = 16"
  show "bus_log (snd (snd (getSerialNumber data arraySize d w))) =
            bus_log w @ [Transmit (m_dev_address_security_register d) [0x08, 0x00] False,
                         Request (m_dev_address_security_register d) 16 True]"
    by (simp add: a getSerialNumber_def SERIAL_NUMBER_BYTE_SIZE_def Let_def split_beta
        getSerialNumber_loop_log Wire_requestFrom_def Wire_endTransmission_def
        Wire_write_def Wire_beginTransmission_def SECREG_WRD_ADDRH_def SECREG_WRD_ADDRL_def)
next
  assume a: "arraySize = 16"
  show "\<forall>i. fst (snd (getSerialNumber data arraySize d w)) i =
              (if i < 16 then
                 (if i < length (delivered w 16) then delivered w 16 ! i else 0xFF)
               else data i)"
    by (simp add: a getSerialNumber_def SERIAL_NUMBER_BYTE_SIZE_def Let_def split_beta
        getSerialNumber_loop_data Wire_requestFrom_def)
qed

theorem getSerialNumber_size_check_witness:
  "(3 :: u8) \<noteq> 16
   \<and> getSerialNumber (\<lambda>_. 0) 3 memory (idle_wire 0 [1, 2, 3]) = (False, \<lambda>_. 0, idle_wire 0 [1, 2, 3])
   \<and> fst (getSerialNumber (\<lambda>_. 0) 16 memory (idle_wire 0 [1, 2, 3])) = True
   \<and> map (fst (snd (getSerialNumber (\<lambda>_. 0) 16 memory (idle_wire 0 [1, 2, 3])))) [0, 1, 2, 3, 15, 16]
        = [1, 2, 3, 0xFF, 0xFF, 0]"
  using getSerialNumber_size_check [of 3 "\<lambda>_. 0" memory "idle_wire 0 [1, 2, 3]"]
    getSerialNumber_size_check [of 16 "\<lambda>_. 0" memory "idle_wire 0 [1, 2, 3]"]
  by (simp add: delivered_def idle_wire_def)

section \<open>Write-protection zones\<close>

text \<open>
  C8. For a zone outside 0..7, \<open>setWriteProtectionZone\<close> and
  \<open>removeWriteProtectionZone\<close> return false and leave the snapshot and the bus as they
  were. For a zone in 0..7, \<open>setWriteProtectionZone\<close> sets bit \<open>zone\<close> of the
  snapshot's \<open>zoneProtection\<close> and changes no other bit and no other field, and
  \<open>removeWriteProtectionZone\<close> clears that bit and changes nothing else; each then
  returns what \<open>updateConfigRegister\<close> with the confirm byte \<open>0x66\<close> returns on the
  changed snapshot.
\<close>

theorem zone_setters_validate_and_delegate:
  fixes zone :: u8 and d :: Mem24CSM01 and w :: wire
  defines "s \<equiv> setWriteProtectionZone zone d w"
    and "r \<equiv> removeWriteProtectionZone zone d w"
  shows "(\<not> zone \<le> 7 \<longrightarrow> s = (False, d, w) \<and> r = (False, d, w))
   \<and> (zone \<le> 7 \<longrightarrow>
        (\<forall>n. bit (zoneProtection (m_configuration (fst (snd s)))) n
               \<longleftrightarrow> n = unat zone \<or> bit (zoneProtection (m_configuration d)) n)
        \<and> fst (snd s) = d\<lparr>m_configuration := (m_configuration d)
               \<lparr>zoneProtection := zoneProtection (m_configuration (fst (snd s)))\<rparr>\<rparr>
        \<and> (fst s, snd (snd s)) = updateConfigRegister 0x66 (fst (snd s)) w
        \<and> (\<forall>n. bit (zoneProtection (m_configuration (fst (snd r)))) n
               \<longleftrightarrow> n \<noteq> unat zone \<and> bit (zoneProtection (m_configuration d)) n)
        \<and> fst (snd r) = d\<lparr>m_configuration := (m_configuration d)
               \<lparr>zoneProtection := zoneProtection (m_configuration (fst (snd r)))\<rparr>\<rparr>
        \<and> (fst r, snd (snd r)) = updateConfigRegister 0x66 (fst (snd r)) w)"
proof (intro conjI impI)
  assume "\<not> zone \<le> 7"
  then show "s = (False, d, w)" and "r = (False, d, w)"
    by (simp_all add: s_def r_def setWriteProtectionZone_def removeWriteProtectionZone_def)
next
  assume z: "zone \<le> 7"
  note s = setWriteProtectionZone_in_range [OF z, of d w, folded s_def]
  note r = removeWriteProtectionZone_in_range [OF z, of d w, folded r_def]
  show "\<forall>n. bit (zoneProtection (m_configuration (fst (snd s)))) n
               \<longleftrightarrow> n = unat zone \<or> bit (zoneProtection (m_configuration d)) n"
    by (simp add: s bit_bitSet [OF z])
  show "fst (snd s) = d\<lparr>m_configuration := (m_configuration d)
               \<lparr>zoneProtection := zoneProtection (m_configuration (fst (snd s)))\<rparr>\<rparr>"
    by (simp add: s)
  show "(fst s, snd (snd s)) = updateConfigRegister 0x66 (fst (snd s)) w"
    by (simp add: s)
  show "\<forall>n. bit (zoneProtection (m_configuration (fst (snd r)))) n
               \<longleftrightarrow> n \<noteq> unat zone \<and> bit (zoneProtection (m_configuration d)) n"
    by (simp add: r bit_bitClear [OF z])
  show "fst (snd r) = d\<lparr>m_configuration := (m_configuration d)
               \<lparr>zoneProtection := zoneProtection (m_configuration (fst (snd r)))\<rparr>\<rparr>"
    by (simp add: r)
  show "(fst r, snd (snd r)) = updateConfigRegister 0x66 (fst (snd r)) w"
    by (simp add: r)
qed

theorem zone_setters_validate_and_delegate_witness:
  "\<not> (9 :: u8) \<le> 7
   \<and> setWriteProtectionZone 9 memory (idle_wire 0 []) = (False, memory, idle_wire 0 [])
   \<and> removeWriteProtectionZone 9 memory (idle_wire 0 []) = (False, memory, idle_wire 0 [])
   \<and> (2 :: u8) \<le> 7
   \<and> bit (zoneProtection (m_configuration
          (fst (snd (setWriteProtectionZone 2 memory (idle_wire 0 [])))))) 2
   \<and> \<not> bit (zoneProtection (m_configuration
          (fst (snd (removeWriteProtectionZone 2 memory (idle_wire 0 [])))))) 2"
  using zone_setters_validate_and_delegate [of 9 memory "idle_wire 0 []"]
    zone_setters_validate_and_delegate [of 2 memory "idle_wire 0 []"]
  by simp

text \<open>
  C9. A failed bus transaction does not undo the change of the snapshot. When the
  transaction of \<open>updateConfigRegister\<close> reports a status other than 0, then for a zone
  in 0..7 \<open>setWriteProtectionZone\<close> returns false and the snapshot has the bit set,
  \<open>removeWriteProtectionZone\<close> returns false and the snapshot has the bit cleared;
  \<open>writeProtection\<close> returns false and the snapshot holds the new mask;
  \<open>enableSoftwareWriteProtect\<close> and \<open>disableSoftwareWriteProtect\<close> return false and
  the snapshot holds the new mode flag.
\<close>

theorem configuration_setters_not_rolled_back:
  assumes "endResults w (endCount w) \<noteq> 0"
  shows "(zone \<le> 7 \<longrightarrow>
            fst (setWriteProtectionZone zone d w) = False
            \<and> bit (zoneProtection (m_configuration (fst (snd (setWriteProtectionZone zone d w)))))
                 (unat zone)
            \<and> fst (removeWriteProtectionZone zone d w) = False
            \<and> \<not> bit (zoneProtection (m_configuration (fst (snd (removeWriteProtectionZone zone d w)))))
                 (unat zone))
   \<and> fst (writeProtection zones d w) = False
   \<and> zoneProtection (m_configuration (fst (snd (writeProtection zones d w)))) = zones
   \<and> fst (enableSoftwareWriteProtect d w) = False
   \<and> isSoftwareWriteProtect (m_configuration (fst (snd (enableSoftwareWriteProtect d w))))
   \<and> fst (disableSoftwareWriteProtect d w) = False
   \<and> \<not> isSoftwareWriteProtect (m_configuration (fst (snd (disableSoftwareWriteProtect d w))))"
proof (intro conjI impI)
  assume z: "zone \<le> 7"
  show "fst (setWriteProtectionZone zone d w) = False"
    using assms by (simp add: setWriteProtectionZone_in_range [OF z] updateConfigRegister_result)
  show "bit (zoneProtection (m_configuration (fst (snd (setWriteProtectionZone zone d w))))) (unat zone)"
    by (simp add: setWriteProtectionZone_in_range [OF z] bit_bitSet [OF z])
  show "fst (removeWriteProtectionZone zone d w) = False"
    using assms by (simp add: removeWriteProtectionZone_in_range [OF z] updateConfigRegister_result)
  show "\<not> bit (zoneProtection (m_configuration (fst (snd (removeWriteProtectionZone zone d w))))) (unat zone)"
    by (simp add: removeWriteProtectionZone_in_range [OF z] bit_bitClear [OF z])
next
  show "fst (writeProtection zones d w) = False"
    using assms
    by (simp add: writeProtection_def updateConfigRegister_default_def Let_def split_beta
        updateConfigRegister_result)
  show "zoneProtection (m_configuration (fst (snd (writeProtection zones d w)))) = zones"
    by (simp add: writeProtection_def Let_def split_beta)
  show "fst (enableSoftwareWriteProtect d w) = False"
    using assms
    by (simp add: enableSoftwareWriteProtect_def updateConfigRegister_default_def Let_def
        split_beta updateConfigRegister_result)
  show "isSoftwareWriteProtect (m_configuration (fst (snd (enableSoftwareWriteProtect d w))))"
    by (simp add: enableSoftwareWriteProtect_def Let_def split_beta)
  show "fst (disableSoftwareWriteProtect d w) = False"
    using assms
    by (simp add: disableSoftwareWriteProtect_def updateConfigRegister_default_def Let_def
        split_beta updateConfigRegister_result)
  show "\<not> isSoftwareWriteProtect (m_configuration (fst (snd (disableSoftwareWriteProtect d w))))"
    by (simp add: disableSoftwareWriteProtect_def Let_def split_beta)
qed

theorem configuration_setters_not_rolled_back_witness:
  "endResults (idle_wire 2 []) (endCount (idle_wire 2 [])) \<noteq> 0
   \<and> (3 :: u8) \<le> 7
   \<and> \<not> bit (zoneProtection (m_configuration memory)) 3
   \<and> fst (setWriteProtectionZone 3 memory (idle_wire 2 [])) = False
   \<and> bit (zoneProtection (m_configuration
          (fst (snd (setWriteProtectionZone 3 memory (idle_wire 2 [])))))) 3
   \<and> \<not> isSoftwareWriteProtect (m_configuration memory)
   \<and> fst (enableSoftwareWriteProtect memory (idle_wire 2 [])) = False
   \<and> isSoftwareWriteProtect (m_configuration
          (fst (snd (enableSoftwareWriteProtect memory (idle_wire 2 [])))))"
proof -
  have h: "endResults (idle_wire 2 []) (endCount (idle_wire 2 [])) \<noteq> 0"
    by (simp add: idle_wire_def)
  have m: "\<not> bit (zoneProtection (m_configuration memory)) 3"
    "\<not> isSoftwareWriteProtect (m_configuration memory)"
    by (simp_all add: memory_def Mem24CSM01_pins_def)
  show ?thesis
    using h m configuration_setters_not_rolled_back [OF h, of 3 memory] by simp
qed

section \<open>Writing zero bytes\<close>

text \<open>
  C10. A size of 0 is not refused as such. At address 0 the sum \<open>0 + 0 - 1\<close> wraps to
  the largest 32-bit value and \<open>write\<close> returns \<open>NOT_ON_SINGLE_PAGE\<close> without touching
  the bus. At every address from 1 to \<open>0x100\<close> all three checks pass and one
  transaction is issued to the memory-access address that carries the two word-address
  bytes and no data byte; the result is the mapped completion status.
\<close>

theorem write_dataArray_zero_size:
  "write_dataArray 0 dataArray 0 d w = (NOT_ON_SINGLE_PAGE, w)
   \<and> (0 + 0 - 1 :: u32) = 0xFFFFFFFF
   \<and> (1 \<le> address \<and> address \<le> 0x100 \<longrightarrow>
        write_dataArray address dataArray 0 d w =
          (processTransmissionResult (uint (endResults w (endCount w))),
           w\<lparr>txAddress := m_dev_address_memory_access d,
             txBuffer := [],
             bus_log := bus_log w @
               [Transmit (m_dev_address_memory_access d)
                  [ucast (drop_bit 8 address), ucast address] True],
             endCount := Suc (endCount w)\<rparr>))"
proof (intro conjI impI)
  show "write_dataArray 0 dataArray 0 d w = (NOT_ON_SINGLE_PAGE, w)"
    by (simp add: write_dataArray_def MAX_MEMORY_ADDRESS_VALUE_def MAX_MEMORY_PAGE_SIZE_def)
  show "(0 + 0 - 1 :: u32) = 0xFFFFFFFF" by simp
next
  assume a: "1 \<le> address \<and> address \<le> 0x100"
  then have "unat address \<le> 256" by (simp add: word_le_nat_alt)
  then have le: "address \<le> 0x1FFFF" by (simp add: word_le_nat_alt)
  then have g1: "\<not> address > MAX_MEMORY_ADDRESS_VALUE"
    by (simp add: MAX_MEMORY_ADDRESS_VALUE_def not_less)
  have g2: "\<not> (0 :: u32) > MAX_MEMORY_PAGE_SIZE"
    by (simp add: MAX_MEMORY_PAGE_SIZE_def)
  have g3: "\<not> (address + 0 - 1 > 0xFF)"
    using a by (intro zero_size_check) simp_all
  show "write_dataArray address dataArray 0 d w =
          (processTransmissionResult (uint (endResults w (endCount w))),
           w\<lparr>txAddress := m_dev_address_memory_access d,
             txBuffer := [],
             bus_log := bus_log w @
               [Transmit (m_dev_address_memory_access d)
                  [ucast (drop_bit 8 address), ucast address] True],
             endCount := Suc (endCount w)\<rparr>)"
    unfolding write_dataArray_def if_not_P [OF g1] if_not_P [OF g2] if_not_P [OF g3]
    by (simp add: configureAddressPacket_small [OF le] Wire_beginTransmission_def Wire_write_def
        Wire_endTransmission_def Let_def)
qed

theorem write_dataArray_zero_size_witness:
  "(1 :: u32) \<le> 0x100 \<and> (0x100 :: u32) \<le> 0x100
   \<and> fst (write_dataArray 0x100 (\<lambda>_. 0) 0 memory (idle_wire 0 [])) = OK
   \<and> bus_log (snd (write_dataArray 0x100 (\<lambda>_. 0) 0 memory (idle_wire 0 [])))
        = [Transmit 0x50 [0x01, 0x00] True]"
  using write_dataArray_zero_size [of "\<lambda>_. 0" memory "idle_wire 0 []" "0x100"]
  by (simp add: idle_wire_def memory_def Mem24CSM01_pins_def BASE_MEMREG_ADDR_def
      processTransmissionResult_def drop_bit_eq_div)

end
